theory Spec2Isabelle
  imports Complex_Main "HOL-Library.Sublist"
begin

section \<open>Numbers\<close>

text \<open>
  A JavaScript number is an IEEE double. The model keeps a number as the real it
  denotes. Where the source rounds a quantity up to a whole number of cents, the result
  depends on the last bit of the product it rounds, so there every operation is the
  operation of the source: the exact result rounded to the nearest double, ties to even
  (\<open>double\<close> below; gradual underflow included, overflow to an infinity left out).
  Elsewhere arithmetic is exact: sums, products and quotients of the solver and of the
  similarity scores are the real ones, without the rounding of doubles. \<open>Math.ceil\<close>
  is \<^const>\<open>ceiling\<close>. Where the source can divide by zero the model says so
  explicitly (see \<open>js_div\<close> below).
\<close>

text \<open>The integer nearest to a real, a tie going to the even one.\<close>

definition roundTiesToEven :: "real \<Rightarrow> int" where
  "roundTiesToEven x =
     (let f = \<lfloor>x\<rfloor>; d = x - of_int f in
      if d < 1 / 2 then f else if 1 / 2 < d then f + 1 else if even f then f else f + 1)"

text \<open>\<open>floorLog2 n\<close> is the \<open>k\<close> with \<open>2 ^ k \<le> n < 2 ^ (k + 1)\<close>, for \<open>n \<ge> 1\<close>.\<close>

function floorLog2 :: "int \<Rightarrow> int" where
  "floorLog2 n = (if n < 2 then 0 else 1 + floorLog2 (n div 2))"
  by pat_completeness auto
termination
  by (relation "measure nat") auto

declare floorLog2.simps [simp del]

text \<open>
  The binary exponent of a positive real \<open>x\<close>: the \<open>k\<close> with
  \<open>2 ^ k \<le> x < 2 ^ (k + 1)\<close>, where \<open>k\<close> may be negative.
\<close>

definition binade :: "real \<Rightarrow> int" where
  "binade x =
     (if 1 \<le> x then floorLog2 \<lfloor>x\<rfloor>
      else (let n = \<lceil>1 / x\<rceil> in if n \<le> 1 then 0 else - (floorLog2 (n - 1) + 1)))"

definition pow2 :: "int \<Rightarrow> real" where
  "pow2 k = (if 0 \<le> k then 2 ^ nat k else 1 / 2 ^ nat (- k))"

text \<open>
  The double nearest to a real: 53 significant bits, so the spacing of the doubles
  around \<open>x\<close> is \<open>2 ^ (k - 52)\<close> for the binary exponent \<open>k\<close> of \<open>\<bar>x\<bar>\<close>, and
  \<open>2 ^ (- 1074)\<close> below \<open>2 ^ (- 1022)\<close>.
\<close>

definition double :: "real \<Rightarrow> real" where
  "double x =
     (if x = 0 then 0
      else (let ulp = pow2 (max (- 1022) (binade \<bar>x\<bar>) - 52)
            in of_int (roundTiesToEven (x / ulp)) * ulp))"

text \<open>The product and the difference of two doubles, as the source computes them.\<close>

definition double_mul :: "real \<Rightarrow> real \<Rightarrow> real" where
  "double_mul a b = double (a * b)"

definition double_sub :: "real \<Rightarrow> real \<Rightarrow> real" where
  "double_sub a b = double (a - b)"

section \<open>fees.js\<close>

text \<open>
  Modelled from the spec: the object \<open>CONFIG.fees\<close> read by fees.js is not defined in
  any source file (the CONFIG objects of the repository have no \<open>fees\<close> member). The
  three rates are the ones of the formulas documented in fees.js and of the spec:
  0.07 (Kalshi taker), 0.0175 (Kalshi maker), 0.02 (Polymarket).
\<close>

definition CONFIG_fees_kalshi_takerFeeRate :: real where
  "CONFIG_fees_kalshi_takerFeeRate = 7 / 100"

definition CONFIG_fees_kalshi_makerFeeRate :: real where
  "CONFIG_fees_kalshi_makerFeeRate = 175 / 10000"

definition CONFIG_fees_polymarket_feeRate :: real where
  "CONFIG_fees_polymarket_feeRate = 2 / 100"

definition Math_ceil :: "real \<Rightarrow> real" where
  "Math_ceil x = of_int \<lceil>x\<rceil>"

text \<open>
  \<open>rate * contracts * price * (1 - price)\<close>, from left to right, on the doubles of the
  rate, of the contract count and of the price; each operation rounds.
\<close>

definition kalshiFeeProduct :: "real \<Rightarrow> real \<Rightarrow> real \<Rightarrow> real" where
  "kalshiFeeProduct rate contracts price =
     double_mul
       (double_mul (double_mul (double rate) (double contracts)) (double price))
       (double_sub 1 (double price))"

text \<open>
  \<open>Math.ceil(fee * 100) / 100\<close>: the product \<open>fee * 100\<close> rounds once more before the
  ceiling. The result is kept as the whole number of cents over 100.
\<close>

definition calculateKalshiTakerFee :: "real \<Rightarrow> real \<Rightarrow> real" where
  "calculateKalshiTakerFee contracts price =
     (let fee = kalshiFeeProduct CONFIG_fees_kalshi_takerFeeRate contracts price
      in Math_ceil (double_mul fee 100) / 100)"

definition calculateKalshiMakerFee :: "real \<Rightarrow> real \<Rightarrow> real" where
  "calculateKalshiMakerFee contracts price =
     (let fee = kalshiFeeProduct CONFIG_fees_kalshi_makerFeeRate contracts price
      in Math_ceil (double_mul fee 100) / 100)"

definition calculatePolymarketFee :: "real \<Rightarrow> real \<Rightarrow> real" where
  "calculatePolymarketFee contracts price =
     (let cost = contracts * price;
          potentialProfit = contracts - cost;
          fee = CONFIG_fees_polymarket_feeRate * potentialProfit
      in max 0 fee)"

record cost =
  contractCost :: real
  fee :: real
  totalCost :: real
  maxPayout :: real

definition calculateKalshiCost :: "real \<Rightarrow> real \<Rightarrow> bool \<Rightarrow> cost" where
  "calculateKalshiCost contracts price isMaker =
     (let contractCost = contracts * price;
          fee = (if isMaker then calculateKalshiMakerFee contracts price
                 else calculateKalshiTakerFee contracts price)
      in \<lparr>contractCost = contractCost, fee = fee,
          totalCost = contractCost + fee, maxPayout = contracts\<rparr>)"

definition calculatePolymarketCost :: "real \<Rightarrow> real \<Rightarrow> cost" where
  "calculatePolymarketCost contracts price =
     (let contractCost = contracts * price;
          fee = calculatePolymarketFee contracts price
      in \<lparr>contractCost = contractCost, fee = fee,
          totalCost = contractCost + fee, maxPayout = contracts\<rparr>)"

text \<open>
  The object returned by \<open>calculateArbitrageProfit\<close>. Its member \<open>totalCost\<close> is
  named \<open>profit_totalCost\<close> here, since the cost breakdown has a member of that name.
\<close>

record profit =
  profit_totalCost :: real
  guaranteedPayout :: real
  netProfit :: real
  profitPercent :: real
  side1Cost :: real
  side2Cost :: real
  side1Fee :: real
  side2Fee :: real

definition calculateArbitrageProfit :: "cost \<Rightarrow> cost \<Rightarrow> profit" where
  "calculateArbitrageProfit side1 side2 =
     (let totalCost' = totalCost side1 + totalCost side2;
          guaranteedPayout = maxPayout side1;
          netProfit = guaranteedPayout - totalCost';
          profitPercent = (netProfit / totalCost') * 100
      in \<lparr>profit_totalCost = totalCost', guaranteedPayout = guaranteedPayout,
          netProfit = netProfit, profitPercent = profitPercent,
          side1Cost = totalCost side1, side2Cost = totalCost side2,
          side1Fee = fee side1, side2Fee = fee side2\<rparr>)"

section \<open>arbitrage.js: the arbitrage solver\<close>

text \<open>
  The object returned by \<open>checkArbitrageOpportunity\<close>: its own members followed by the
  members of the profit analysis (\<open>...profit\<close> in the source).
\<close>

record opportunity = profit +
  platform1 :: string
  side1 :: string
  price1 :: real
  contracts1 :: real
  cost1 :: cost
  platform2 :: string
  side2 :: string
  price2 :: real
  contracts2 :: real
  cost2 :: cost

text \<open>
  \<open>platform === 'kalshi' ? calculateKalshiCost(contracts, price, false)
     : calculatePolymarketCost(contracts, price)\<close>, written four times in the source.
\<close>

definition platformCost :: "string \<Rightarrow> real \<Rightarrow> real \<Rightarrow> cost" where
  "platformCost platform contracts price =
     (if platform = ''kalshi'' then calculateKalshiCost contracts price False
      else calculatePolymarketCost contracts price)"

definition mkOpportunity ::
  "string \<Rightarrow> string \<Rightarrow> real \<Rightarrow> string \<Rightarrow> string \<Rightarrow> real \<Rightarrow> real \<Rightarrow> cost \<Rightarrow> cost \<Rightarrow> profit
     \<Rightarrow> opportunity" where
  "mkOpportunity p1 s1 pr1 p2 s2 pr2 contracts c1 c2 pf =
     profit.extend pf
       (opportunity.fields p1 s1 pr1 contracts c1 p2 s2 pr2 contracts c2)"

definition checkArbitrageOpportunity ::
  "string \<Rightarrow> string \<Rightarrow> real \<Rightarrow> string \<Rightarrow> string \<Rightarrow> real \<Rightarrow> real \<Rightarrow> opportunity option" where
  "checkArbitrageOpportunity p1 s1 pr1 p2 s2 pr2 investment =
     (let totalPrice = pr1 + pr2;
          contracts = investment / totalPrice;
          c1 = platformCost p1 contracts pr1;
          c2 = platformCost p2 contracts pr2;
          totalCost' = totalCost c1 + totalCost c2
      in if totalCost' > investment then
           (let contracts' = contracts * (investment / totalCost');
                adjustedCost1 = platformCost p1 contracts' pr1;
                adjustedCost2 = platformCost p2 contracts' pr2;
                pf = calculateArbitrageProfit adjustedCost1 adjustedCost2
            in if netProfit pf > 0
               then Some (mkOpportunity p1 s1 pr1 p2 s2 pr2 contracts'
                            adjustedCost1 adjustedCost2 pf)
               else None)
         else
           (let pf = calculateArbitrageProfit c1 c2
            in if netProfit pf > 0
               then Some (mkOpportunity p1 s1 pr1 p2 s2 pr2 contracts c1 c2 pf)
               else None))"

text \<open>
  A market object, with the members the core reads. A member that is missing
  (\<open>undefined\<close>) is \<open>None\<close>. The member \<open>id\<close> is named \<open>market_id\<close>.
\<close>

record market =
  market_id :: string
  title :: "string option"
  question :: "string option"
  yes_price :: "real option"
  price :: "real option"

text \<open>
  \<open>a || b\<close> on an optional number \<open>a\<close>: \<open>a\<close> when it is truthy (present and not
  zero), \<open>b\<close> otherwise.
\<close>

definition truthy_num :: "real option \<Rightarrow> bool" where
  "truthy_num v = (case v of None \<Rightarrow> False | Some x \<Rightarrow> x \<noteq> 0)"

definition or_num :: "real option \<Rightarrow> real \<Rightarrow> real" where
  "or_num a b = (case a of None \<Rightarrow> b | Some x \<Rightarrow> if x \<noteq> 0 then x else b)"

text \<open>\<open>m.yes_price || m.price || 0.5\<close>\<close>

definition yesPriceOf :: "market \<Rightarrow> real" where
  "yesPriceOf m = or_num (yes_price m) (or_num (price m) (1 / 2))"

text \<open>
  \<open>opportunities.sort((a, b) => b.netProfit - a.netProfit)\<close>: a stable sort by
  descending \<open>netProfit\<close>, as an insertion sort that keeps equal elements in order.
\<close>

fun insertByProfit :: "opportunity \<Rightarrow> opportunity list \<Rightarrow> opportunity list" where
  "insertByProfit x [] = [x]"
| "insertByProfit x (y # ys) =
     (if netProfit y - netProfit x > 0 then y # insertByProfit x ys else x # y # ys)"

definition sortByProfit :: "opportunity list \<Rightarrow> opportunity list" where
  "sortByProfit xs = foldr insertByProfit xs []"

definition calculateArbitrage :: "market \<Rightarrow> market \<Rightarrow> real \<Rightarrow> opportunity option" where
  "calculateArbitrage kalshiMarket polyMarket investment =
     (let kalshiYesPrice = yesPriceOf kalshiMarket;
          kalshiNoPrice = 1 - kalshiYesPrice;
          polyYesPrice = yesPriceOf polyMarket;
          polyNoPrice = 1 - polyYesPrice;
          opp1 = checkArbitrageOpportunity ''kalshi'' ''yes'' kalshiYesPrice
                   ''polymarket'' ''no'' polyNoPrice investment;
          opportunities1 = (case opp1 of Some x \<Rightarrow> [x] | None \<Rightarrow> []);
          opp2 = checkArbitrageOpportunity ''kalshi'' ''no'' kalshiNoPrice
                   ''polymarket'' ''yes'' polyYesPrice investment;
          opportunities = (case opp2 of Some x \<Rightarrow> opportunities1 @ [x] | None \<Rightarrow> opportunities1)
      in case sortByProfit opportunities of [] \<Rightarrow> None | best # _ \<Rightarrow> Some best)"

subsection \<open>The solver as the spec words it\<close>

text \<open>
  The steps of the spec's arbitrage calculator, for one combination: the naive allocation
  \<open>contracts0 = investment / (price1 + price2)\<close>, the total cost of both sides at a
  contract count, the contract count after the one proportional rescale, and the net
  profit of the combination at that count. The theorems below compare
  \<open>checkArbitrageOpportunity\<close> and \<open>calculateArbitrage\<close> with them.
\<close>

definition spec_contracts0 :: "real \<Rightarrow> real \<Rightarrow> real \<Rightarrow> real" where
  "spec_contracts0 pr1 pr2 investment = investment / (pr1 + pr2)"

definition spec_costAt :: "string \<Rightarrow> real \<Rightarrow> string \<Rightarrow> real \<Rightarrow> real \<Rightarrow> real" where
  "spec_costAt p1 pr1 p2 pr2 contracts =
     totalCost (platformCost p1 contracts pr1) + totalCost (platformCost p2 contracts pr2)"

definition spec_contractsFinal :: "string \<Rightarrow> real \<Rightarrow> string \<Rightarrow> real \<Rightarrow> real \<Rightarrow> real" where
  "spec_contractsFinal p1 pr1 p2 pr2 investment =
     (let contracts0 = spec_contracts0 pr1 pr2 investment;
          firstPass = spec_costAt p1 pr1 p2 pr2 contracts0
      in if firstPass > investment then contracts0 * (investment / firstPass) else contracts0)"

definition spec_netProfit :: "string \<Rightarrow> real \<Rightarrow> string \<Rightarrow> real \<Rightarrow> real \<Rightarrow> real" where
  "spec_netProfit p1 pr1 p2 pr2 investment =
     (let contracts = spec_contractsFinal p1 pr1 p2 pr2 investment
      in contracts - spec_costAt p1 pr1 p2 pr2 contracts)"

definition opportunityAt ::
  "string \<Rightarrow> string \<Rightarrow> real \<Rightarrow> string \<Rightarrow> string \<Rightarrow> real \<Rightarrow> real \<Rightarrow> opportunity" where
  "opportunityAt p1 s1 pr1 p2 s2 pr2 contracts =
     mkOpportunity p1 s1 pr1 p2 s2 pr2 contracts
       (platformCost p1 contracts pr1) (platformCost p2 contracts pr2)
       (calculateArbitrageProfit (platformCost p1 contracts pr1) (platformCost p2 contracts pr2))"

section \<open>arbitrage.js: entity extraction and lexical similarity\<close>

text \<open>
  Titles are strings of 8-bit characters, read as ASCII text. The character classes of
  the source's regular expressions on such text: \<open>[A-Z]\<close>, \<open>[a-z]\<close>, \<open>\d\<close>, \<open>\s\<close>
  (tab, line feed, vertical tab, form feed, carriage return, space) and \<open>\w\<close>. A
  character above 127 is in none of them.
\<close>

definition isUpper :: "char \<Rightarrow> bool" where
  "isUpper c = (c \<in> set ''ABCDEFGHIJKLMNOPQRSTUVWXYZ'')"

definition isLower :: "char \<Rightarrow> bool" where
  "isLower c = (c \<in> set ''abcdefghijklmnopqrstuvwxyz'')"

definition isDigit :: "char \<Rightarrow> bool" where
  "isDigit c = (c \<in> set ''0123456789'')"

definition isSpace :: "char \<Rightarrow> bool" where
  "isSpace c = (c \<in> set [CHR 0x09, CHR 0x0A, CHR 0x0B, CHR 0x0C, CHR 0x0D, CHR '' ''])"

definition isWordChar :: "char \<Rightarrow> bool" where
  "isWordChar c = (isUpper c \<or> isLower c \<or> isDigit c \<or> c = CHR ''_'')"

text \<open>\<open>toLowerCase\<close>, one character at a time.\<close>

definition toLowerChar :: "char \<Rightarrow> char" where
  "toLowerChar c =
     (case map_of (zip ''ABCDEFGHIJKLMNOPQRSTUVWXYZ'' ''abcdefghijklmnopqrstuvwxyz'') c of
        Some l \<Rightarrow> l | None \<Rightarrow> c)"

definition toLowerCase :: "string \<Rightarrow> string" where
  "toLowerCase s = map toLowerChar s"

text \<open>\<open>trim\<close>: white space removed at both ends.\<close>

definition trim :: "string \<Rightarrow> string" where
  "trim s = rev (dropWhile isSpace (rev (dropWhile isSpace s)))"

text \<open>
  \<open>s.includes(t)\<close>, named \<open>str_includes\<close> here: \<open>t\<close> occurs in \<open>s\<close> as a
  contiguous substring.
\<close>

fun startsWith :: "string \<Rightarrow> string \<Rightarrow> bool" where
  "startsWith s [] = True"
| "startsWith [] (d # t) = False"
| "startsWith (c # s) (d # t) = (c = d \<and> startsWith s t)"

fun str_includes :: "string \<Rightarrow> string \<Rightarrow> bool" where
  "str_includes [] t = (t = [])"
| "str_includes (c # s) t = (startsWith (c # s) t \<or> str_includes s t)"

text \<open>
  \<open>text.match(re)\<close> for a global regular expression \<open>re\<close> that never matches the empty
  string: the matches from left to right, each search starting where the previous match
  ended. A pattern is given by a function that, told whether the character before the
  position is a word character, returns the length of the match that starts at the head
  of the remaining text, if there is one. The source's \<open>|| []\<close> makes the result the
  empty list when nothing matches.
\<close>

function matchAll :: "(bool \<Rightarrow> string \<Rightarrow> nat option) \<Rightarrow> bool \<Rightarrow> string \<Rightarrow> string list" where
  "matchAll pat prevWord [] = []"
| "matchAll pat prevWord (c # cs) =
     (case pat prevWord (c # cs) of
        Some (Suc n) \<Rightarrow>
          take (Suc n) (c # cs)
            # matchAll pat (isWordChar (last (take (Suc n) (c # cs)))) (drop n cs)
      | _ \<Rightarrow> matchAll pat (isWordChar c) cs)"
  by pat_completeness auto
termination
  by (relation "measure (\<lambda>(pat, prevWord, s). length s)") auto

text \<open>\<open>\b\<close> after a word character: the text ends or goes on with a non-word character.\<close>

definition wordEnds :: "string \<Rightarrow> bool" where
  "wordEnds rest = (case rest of [] \<Rightarrow> True | c # _ \<Rightarrow> \<not> isWordChar c)"

text \<open>
  \<open>/\b(20\d{2}|2100)\b/\<close>. The first \<open>\b\<close> stands before a digit, so it holds when the
  character before is not a word character.
\<close>

fun yearPattern :: "bool \<Rightarrow> string \<Rightarrow> nat option" where
  "yearPattern prevWord (a # b # c # d # rest) =
     (if \<not> prevWord
         \<and> ((a = CHR ''2'' \<and> b = CHR ''0'' \<and> isDigit c \<and> isDigit d) \<or> [a, b, c, d] = ''2100'')
         \<and> wordEnds rest
      then Some 4 else None)"
| "yearPattern prevWord s = None"

text \<open>
  \<open>/\b\d+(?:\.\d+)?\b/\<close>. \<open>\d+\<close> is greedy; a shorter run of digits ends before a
  digit, where neither \<open>\.\<close> nor \<open>\b\<close> can follow, so only the longest run can lead to
  a match. The optional group is tried first; when the match cannot end after it, the
  match without the group is tried.
\<close>

definition numberPattern :: "bool \<Rightarrow> string \<Rightarrow> nat option" where
  "numberPattern prevWord s =
     (let n = length (takeWhile isDigit s); rest = drop n s in
      if prevWord \<or> n = 0 then None
      else case rest of
        dot # digits \<Rightarrow>
          (let m = length (takeWhile isDigit digits) in
           if dot = CHR ''.'' \<and> 0 < m \<and> wordEnds (drop m digits) then Some (n + 1 + m)
           else if wordEnds rest then Some n else None)
      | [] \<Rightarrow> Some n)"

text \<open>
  \<open>[A-Z][a-z]+\<close> at the head of the text, with the longest run of lower-case letters: a
  shorter run ends before a lower-case letter, where neither \<open>\s\<close> nor \<open>\b\<close> can
  follow.
\<close>

definition capitalizedWord :: "string \<Rightarrow> nat option" where
  "capitalizedWord s =
     (case s of
        [] \<Rightarrow> None
      | c # cs \<Rightarrow>
          (let n = length (takeWhile isLower cs) in
           if isUpper c \<and> 0 < n then Some (Suc n) else None))"

text \<open>
  \<open>(?:\s+[A-Z][a-z]+)*\b\<close> after a capitalized word: the number of characters it
  takes. The star is greedy: one more repetition is tried first, and when the rest of
  the expression fails after it, the match ends here if \<open>\b\<close> holds here.
\<close>

function nameTail :: "string \<Rightarrow> nat option" where
  "nameTail rest =
     (let ws = length (takeWhile isSpace rest); after = drop ws rest in
      case (if 0 < ws then capitalizedWord after else None) of
        Some n \<Rightarrow>
          (case nameTail (drop n after) of
             Some k \<Rightarrow> Some (ws + n + k)
           | None \<Rightarrow> if wordEnds rest then Some 0 else None)
      | None \<Rightarrow> if wordEnds rest then Some 0 else None)"
  by pat_completeness auto
termination
proof (relation "measure length")
  show "wf (measure length)" by simp
next
  fix rest :: string and ws after x2
  assume "ws = length (takeWhile isSpace rest)" "after = drop ws rest"
    "(if 0 < ws then capitalizedWord after else None) = Some x2"
  then have "0 < ws" "ws \<le> length rest"
    by (auto split: if_splits simp: length_takeWhile_le)
  then show "(drop x2 after, rest) \<in> measure length"
    using \<open>after = drop ws rest\<close> by simp
qed

declare nameTail.simps [simp del]

text \<open>\<open>/\b[A-Z][a-z]+(?:\s+[A-Z][a-z]+)*\b/\<close>\<close>

definition namePattern :: "bool \<Rightarrow> string \<Rightarrow> nat option" where
  "namePattern prevWord s =
     (if prevWord then None
      else case capitalizedWord s of
        None \<Rightarrow> None
      | Some n \<Rightarrow> (case nameTail (drop n s) of None \<Rightarrow> None | Some k \<Rightarrow> Some (n + k)))"

text \<open>
  \<open>s.split(/\s+/)\<close>: the pieces between the runs of white space; a run at either end
  leaves an empty piece there, and the empty string splits into one empty piece.
\<close>

function splitSpaces :: "string \<Rightarrow> string list" where
  "splitSpaces s =
     (let piece = takeWhile (\<lambda>c. \<not> isSpace c) s; rest = dropWhile (\<lambda>c. \<not> isSpace c) s in
      if rest = [] then [piece] else piece # splitSpaces (dropWhile isSpace rest))"
  by pat_completeness auto
termination
proof (relation "measure length")
  show "wf (measure length)" by simp
next
  fix s :: string and piece rest
  assume r: "rest = dropWhile (\<lambda>c. \<not> isSpace c) s" "rest \<noteq> []"
  then have "\<not> \<not> isSpace (hd rest)"
    using hd_dropWhile [of "\<lambda>c. \<not> isSpace c" s] by simp
  then have "length (dropWhile isSpace rest) < length rest"
    using r(2) by (cases rest) (simp_all add: length_dropWhile_le less_Suc_eq_le)
  moreover have "length rest \<le> length s" using r(1) by (simp add: length_dropWhile_le)
  ultimately show "(dropWhile isSpace rest, s) \<in> measure length" by simp
qed

declare splitSpaces.simps [simp del]

definition stopWords :: "string set" where
  "stopWords = set [''will'', ''be'', ''the'', ''a'', ''an'', ''in'', ''on'', ''at'', ''to'',
     ''for'', ''of'', ''by'', ''before'', ''after'', ''than'', ''more'', ''less'', ''have'',
     ''has'', ''is'', ''are'', ''was'', ''were'', ''been'', ''being'']"

record entities =
  years :: "string set"
  words :: "string set"
  names :: "string set"
  numbers :: "string set"
  normalized :: string

text \<open>\<open>text.toLowerCase().replace(/[^a-z0-9\s]/g, ' ').trim()\<close>\<close>

definition normalize :: "string \<Rightarrow> string" where
  "normalize text =
     trim (map (\<lambda>c. if isLower c \<or> isDigit c \<or> isSpace c then c else CHR '' '')
             (toLowerCase text))"

definition extractKeyEntities :: "string \<Rightarrow> entities" where
  "extractKeyEntities text =
     (let normalized = normalize text;
          years = matchAll yearPattern False normalized;
          words = filter (\<lambda>w. length w > 2 \<and> w \<notin> stopWords) (splitSpaces normalized);
          names = matchAll namePattern False text;
          numbers = matchAll numberPattern False normalized
      in \<lparr>years = set years, words = set words, names = set (map toLowerCase names),
          numbers = set numbers, normalized = normalized\<rparr>)"

text \<open>
  \<open>new Set([...a].filter(x => b.has(x)))\<close> and \<open>new Set([...a, ...b])\<close> are the
  intersection and the union; \<open>size\<close> is the cardinality.
\<close>

definition jaccard :: "string set \<Rightarrow> string set \<Rightarrow> real" where
  "jaccard a b =
     (let intersection = Set.filter (\<lambda>x. x \<in> b) a; union = a \<union> b in
      if card union > 0 then real (card intersection) / real (card union) else 0)"

definition calculateSimilarity :: "string \<Rightarrow> string \<Rightarrow> real" where
  "calculateSimilarity str1 str2 =
     (if str1 = [] \<or> str2 = [] then 0
      else
       (let e1 = extractKeyEntities str1; e2 = extractKeyEntities str2 in
        if normalized e1 = normalized e2 then 1
        else if str_includes (normalized e1) (normalized e2) \<or> str_includes (normalized e2) (normalized e1)
        then 85 / 100
        else if card (years e1) > 0 \<and> card (years e2) > 0
                \<and> card (Set.filter (\<lambda>y. y \<in> years e2) (years e1)) = 0
        then 0
        else
         (let nameScore = (if card (names e1) > 0 \<or> card (names e2) > 0
                           then jaccard (names e1) (names e2) else 0);
              wordScore = jaccard (words e1) (words e2);
              numberScore = (if card (numbers e1) > 0 \<or> card (numbers e2) > 0
                             then jaccard (numbers e1) (numbers e2) else 0);
              finalScore = (wordScore * (6 / 10)) + (nameScore * (25 / 100))
                           + (numberScore * (15 / 100))
          in finalScore)))"

section \<open>arbitrage.js: greedy matching\<close>

text \<open>
  \<open>m.title || m.question || ''\<close>: a string is truthy when it is present and not empty.
\<close>

definition or_str :: "string option \<Rightarrow> string \<Rightarrow> string" where
  "or_str a b = (case a of None \<Rightarrow> b | Some s \<Rightarrow> if s \<noteq> [] then s else b)"

definition titleOf :: "market \<Rightarrow> string" where
  "titleOf m = or_str (title m) (or_str (question m) [])"

record matched =
  kalshi :: market
  polymarket :: market
  similarity :: real
  matchConfidence :: string

text \<open>
  The inner loop over \<open>polymarketMarkets\<close>; its state is \<open>(bestMatch, bestSimilarity)\<close>.
\<close>

fun bestMatchLoop ::
  "string set \<Rightarrow> market \<Rightarrow> real \<Rightarrow> market list \<Rightarrow> market option \<times> real
     \<Rightarrow> market option \<times> real" where
  "bestMatchLoop usedPolyMarkets kalshiMarket minSimilarity [] best = best"
| "bestMatchLoop usedPolyMarkets kalshiMarket minSimilarity (polyMarket # rest)
     (bestMatch, bestSimilarity) =
     (if market_id polyMarket \<in> usedPolyMarkets
      then bestMatchLoop usedPolyMarkets kalshiMarket minSimilarity rest
             (bestMatch, bestSimilarity)
      else
       (let sim = calculateSimilarity (titleOf kalshiMarket) (titleOf polyMarket) in
        if sim \<ge> minSimilarity \<and> sim > bestSimilarity
        then bestMatchLoop usedPolyMarkets kalshiMarket minSimilarity rest (Some polyMarket, sim)
        else bestMatchLoop usedPolyMarkets kalshiMarket minSimilarity rest
               (bestMatch, bestSimilarity)))"

text \<open>
  The outer loop over \<open>kalshiMarkets\<close>; its state is \<open>(matches, usedPolyMarkets)\<close>.
\<close>

fun matchLoop ::
  "market list \<Rightarrow> market list \<Rightarrow> real \<Rightarrow> matched list \<times> string set
     \<Rightarrow> matched list \<times> string set" where
  "matchLoop [] polymarketMarkets minSimilarity st = st"
| "matchLoop (kalshiMarket # rest) polymarketMarkets minSimilarity (matches, usedPolyMarkets) =
     (case bestMatchLoop usedPolyMarkets kalshiMarket minSimilarity polymarketMarkets (None, 0) of
        (Some bestMatch, bestSimilarity) \<Rightarrow>
          matchLoop rest polymarketMarkets minSimilarity
            (matches @
               [\<lparr>kalshi = kalshiMarket, polymarket = bestMatch, similarity = bestSimilarity,
                 matchConfidence =
                   (if bestSimilarity \<ge> 7 / 10 then ''high''
                    else if bestSimilarity \<ge> 5 / 10 then ''medium'' else ''low'')\<rparr>],
             insert (market_id bestMatch) usedPolyMarkets)
      | (None, bestSimilarity) \<Rightarrow>
          matchLoop rest polymarketMarkets minSimilarity (matches, usedPolyMarkets))"

definition findMatchingMarkets :: "market list \<Rightarrow> market list \<Rightarrow> real \<Rightarrow> matched list" where
  "findMatchingMarkets kalshiMarkets polymarketMarkets minSimilarity =
     fst (matchLoop kalshiMarkets polymarketMarkets minSimilarity ([], {}))"

section \<open>vector-matcher.js: cosine similarity\<close>

text \<open>
  The value of a JavaScript division: a real number, \<open>NaN\<close> or an infinity. The
  entries of the vectors and the three sums of the loop are finite numbers, modelled by
  exact reals.
\<close>

datatype jsnum = Num real | NaN | PosInfinity | NegInfinity

text \<open>
  \<open>x / y\<close> for a divisor that is not negative, as a product of square roots is: when
  it is zero it is the positive zero, so the quotient is \<open>NaN\<close> for \<open>x = 0\<close> and an
  infinity with the sign of \<open>x\<close> otherwise.
\<close>

definition js_div :: "real \<Rightarrow> real \<Rightarrow> jsnum" where
  "js_div x y =
     (if y \<noteq> 0 then Num (x / y)
      else if x = 0 then NaN
      else if 0 < x then PosInfinity else NegInfinity)"

text \<open>
  The loop \<open>for (let i = 0; i < vec1.length; i++)\<close>; its state is
  \<open>(dotProduct, norm1, norm2)\<close>. It runs when both vectors have the same length, so
  every index is in range in both.
\<close>

definition cosineLoop :: "real list \<Rightarrow> real list \<Rightarrow> real \<times> real \<times> real" where
  "cosineLoop vec1 vec2 =
     fold (\<lambda>i (dotProduct, norm1, norm2).
             (dotProduct + vec1 ! i * vec2 ! i,
              norm1 + vec1 ! i * vec1 ! i,
              norm2 + vec2 ! i * vec2 ! i))
       [0..<length vec1] (0, 0, 0)"

text \<open>
  A vector that is absent (\<open>null\<close> or \<open>undefined\<close>) is \<open>None\<close>; an array, even an
  empty one, is truthy.
\<close>

definition cosineSimilarity :: "real list option \<Rightarrow> real list option \<Rightarrow> jsnum" where
  "cosineSimilarity vec1 vec2 =
     (case (vec1, vec2) of
        (Some v1, Some v2) \<Rightarrow>
          if length v1 \<noteq> length v2 then Num 0
          else (case cosineLoop v1 v2 of
                  (dotProduct, norm1, norm2) \<Rightarrow> js_div dotProduct (sqrt norm1 * sqrt norm2))
      | _ \<Rightarrow> Num 0)"

text \<open>The Euclidean norm of a vector, for the statement of the claim.\<close>

definition vectorNorm :: "real list \<Rightarrow> real" where
  "vectorNorm v = sqrt (\<Sum>x\<leftarrow>v. x * x)"

section \<open>backend/routes: the refresh route and the matches route\<close>

text \<open>
  The handler of \<open>POST /refresh\<close> in system.js is asynchronous: between its steps the
  server handles other requests. Its progress is a phase: no refresh running, the two
  venue fetches, the rebuild of the Kalshi index, the rebuild of the Polymarket index.
  A request \<open>POST /refresh\<close> starts it; each \<open>await\<close> that completes moves it on, and
  an exception ends it.
\<close>

datatype refresh_phase = Idle | Fetching | IndexingKalshi | IndexingPolymarket

fun refresh_completes :: "refresh_phase \<Rightarrow> refresh_phase" where
  "refresh_completes Idle = Fetching"
| "refresh_completes Fetching = IndexingKalshi"
| "refresh_completes IndexingKalshi = IndexingPolymarket"
| "refresh_completes IndexingPolymarket = Idle"

definition refresh_in_progress :: "refresh_phase \<Rightarrow> bool" where
  "refresh_in_progress phase = (phase \<noteq> Idle)"

text \<open>
  What a module exports, as far as another module calls it: a partial map from member
  names to predicates on the phase of the refresh. system.js ends with
  \<open>module.exports = router\<close>; it gives the router its three routes and no other member,
  and its refresh handler writes no flag. So the object that opportunities.js obtains
  with \<open>require('./system')\<close> has no member \<open>isIndexing\<close>.
\<close>

type_synonym module_exports = "string \<rightharpoonup> (refresh_phase \<Rightarrow> bool)"

definition system :: module_exports where
  "system = Map.empty"

text \<open>
  The handler of \<open>GET /\<close> in opportunities.js. The outcome of
  \<open>await findMatchesFromDb(minSimilarity, limit)\<close> with the statistics is a parameter:
  \<open>None\<close> when it throws.
\<close>

datatype 'm response = Status503 string | Status500 | Status200 'm

definition getOpportunities ::
  "module_exports \<Rightarrow> refresh_phase \<Rightarrow> 'm option \<Rightarrow> 'm response" where
  "getOpportunities sys phase queried =
     (if (case sys ''isIndexing'' of None \<Rightarrow> False | Some isIndexing \<Rightarrow> isIndexing phase)
      then Status503 ''System is currently indexing new data. Please try again in a moment.''
      else (case queried of None \<Rightarrow> Status500 | Some matches \<Rightarrow> Status200 matches))"

section \<open>Properties of the fee model and of the solver\<close>

text \<open>
  Where a theorem about the solver assumes a positive investment and prices in the unit
  interval with a positive sum, no divisor of the source is zero
  (\<open>price1 + price2\<close>, the first-pass total cost when it exceeds the investment, and
  the total cost in \<open>profitPercent\<close>), so the exact division of the model is the
  division the source performs. The yes price that \<open>calculateArbitrage\<close> reads from a
  market is positive and at most 1 whenever the price members the market has are in the
  unit interval.
\<close>

lemma yesPriceOf_in_unit_interval:
  assumes "\<forall>x. yes_price m = Some x \<longrightarrow> 0 \<le> x \<and> x \<le> 1"
    and "\<forall>x. price m = Some x \<longrightarrow> 0 \<le> x \<and> x \<le> 1"
  shows "0 < yesPriceOf m \<and> yesPriceOf m \<le> 1"
  using assms by (auto simp: yesPriceOf_def or_num_def split: option.splits)

lemma netProfit_calculateArbitrageProfit:
  "netProfit (calculateArbitrageProfit a b) = maxPayout a - (totalCost a + totalCost b)"
  by (simp add: calculateArbitrageProfit_def Let_def)

lemma maxPayout_platformCost: "maxPayout (platformCost p c pr) = c"
  by (simp add: platformCost_def calculateKalshiCost_def calculatePolymarketCost_def Let_def)

lemma netProfit_at:
  "netProfit (calculateArbitrageProfit (platformCost p1 c pr1) (platformCost p2 c pr2))
     = c - spec_costAt p1 pr1 p2 pr2 c"
  by (simp add: netProfit_calculateArbitrageProfit maxPayout_platformCost spec_costAt_def)

lemma mkOpportunity_sel:
  "netProfit (mkOpportunity p1 s1 pr1 p2 s2 pr2 c k1 k2 pf) = netProfit pf"
  "platform1 (mkOpportunity p1 s1 pr1 p2 s2 pr2 c k1 k2 pf) = p1"
  "side1 (mkOpportunity p1 s1 pr1 p2 s2 pr2 c k1 k2 pf) = s1"
  "price1 (mkOpportunity p1 s1 pr1 p2 s2 pr2 c k1 k2 pf) = pr1"
  "contracts1 (mkOpportunity p1 s1 pr1 p2 s2 pr2 c k1 k2 pf) = c"
  "cost1 (mkOpportunity p1 s1 pr1 p2 s2 pr2 c k1 k2 pf) = k1"
  "platform2 (mkOpportunity p1 s1 pr1 p2 s2 pr2 c k1 k2 pf) = p2"
  "side2 (mkOpportunity p1 s1 pr1 p2 s2 pr2 c k1 k2 pf) = s2"
  "price2 (mkOpportunity p1 s1 pr1 p2 s2 pr2 c k1 k2 pf) = pr2"
  "contracts2 (mkOpportunity p1 s1 pr1 p2 s2 pr2 c k1 k2 pf) = c"
  "cost2 (mkOpportunity p1 s1 pr1 p2 s2 pr2 c k1 k2 pf) = k2"
  by (simp_all add: mkOpportunity_def profit.defs opportunity.defs)

lemma check_char:
  "checkArbitrageOpportunity p1 s1 pr1 p2 s2 pr2 investment =
     (if spec_netProfit p1 pr1 p2 pr2 investment > 0
      then Some (opportunityAt p1 s1 pr1 p2 s2 pr2 (spec_contractsFinal p1 pr1 p2 pr2 investment))
      else None)"
  by (simp add: checkArbitrageOpportunity_def spec_netProfit_def spec_contractsFinal_def
      spec_contracts0_def opportunityAt_def netProfit_at Let_def spec_costAt_def)

lemma roundTiesToEven_bounds: "\<lfloor>x\<rfloor> \<le> roundTiesToEven x \<and> roundTiesToEven x \<le> \<lceil>x\<rceil>"
proof -
  have "\<lfloor>x\<rfloor> + 1 \<le> \<lceil>x\<rceil>" if "x - of_int \<lfloor>x\<rfloor> \<noteq> 0"
    using that by linarith
  then show ?thesis
    by (auto simp: roundTiesToEven_def Let_def)
qed

lemma pow2_pos: "0 < pow2 k"
  by (simp add: pow2_def)

lemma floorLog2_nonneg: "0 \<le> floorLog2 n"
  by (induction n rule: floorLog2.induct) (subst floorLog2.simps, simp)

lemma double_nonneg:
  assumes "0 \<le> x"
  shows "0 \<le> double x"
proof (cases "x = 0")
  case True
  then show ?thesis by (simp add: double_def)
next
  case False
  define ulp where "ulp = pow2 (max (- 1022) (binade \<bar>x\<bar>) - 52)"
  have "0 < ulp" by (simp add: ulp_def pow2_pos)
  with assms have "0 \<le> x / ulp" by simp
  then have "0 \<le> \<lfloor>x / ulp\<rfloor>" by simp
  with roundTiesToEven_bounds [of "x / ulp"] have "0 \<le> roundTiesToEven (x / ulp)" by linarith
  with \<open>0 < ulp\<close> False show ?thesis
    by (simp add: double_def Let_def ulp_def [symmetric])
qed

lemma binade_le_0:
  assumes "0 < x" "x \<le> 1"
  shows "binade x \<le> 0"
proof (cases "x = 1")
  case True
  then show ?thesis by (simp add: binade_def floorLog2.simps)
next
  case False
  with assms have "\<not> 1 \<le> x" by simp
  then show ?thesis
    using floorLog2_nonneg [of "\<lceil>1 / x\<rceil> - 1"] by (simp add: binade_def Let_def)
qed

lemma double_le_1:
  assumes "0 \<le> x" "x \<le> 1"
  shows "double x \<le> 1"
proof (cases "x = 0")
  case True
  then show ?thesis by (simp add: double_def)
next
  case False
  with assms have pos: "0 < x" by simp
  define k where "k = max (- 1022) (binade \<bar>x\<bar>) - 52"
  define m where "m = nat (- k)"
  have "k < 0" using binade_le_0 [OF pos assms(2)] pos by (simp add: k_def)
  then have ulp: "pow2 k = 1 / 2 ^ m" by (simp add: pow2_def m_def)
  have "x / pow2 k = x * 2 ^ m" by (simp add: ulp)
  also have "\<dots> \<le> 1 * 2 ^ m" using assms(2) by (intro mult_right_mono) simp_all
  finally have "x / pow2 k \<le> of_int (2 ^ m)" by simp
  then have "\<lceil>x / pow2 k\<rceil> \<le> 2 ^ m" by (simp add: ceiling_le_iff)
  with roundTiesToEven_bounds [of "x / pow2 k"] have "roundTiesToEven (x / pow2 k) \<le> 2 ^ m"
    by linarith
  then have "of_int (roundTiesToEven (x / pow2 k)) \<le> (2 ^ m :: real)"
    by (metis of_int_le_iff of_int_numeral of_int_power)
  then have "of_int (roundTiesToEven (x / pow2 k)) * (1 / 2 ^ m) \<le> (2 ^ m :: real) * (1 / 2 ^ m)"
    by (intro mult_right_mono) simp_all
  then show ?thesis
    using False by (simp add: double_def Let_def k_def [symmetric] ulp)
qed

lemma kalshiFeeProduct_nonneg:
  assumes "0 \<le> rate" "0 \<le> c" "0 \<le> p" "p \<le> 1"
  shows "0 \<le> kalshiFeeProduct rate c p"
proof -
  have "0 \<le> double_sub 1 (double p)"
    using double_le_1 [OF assms(3,4)] by (simp add: double_sub_def double_nonneg)
  moreover have "0 \<le> double_mul (double_mul (double rate) (double c)) (double p)"
    using assms by (simp add: double_mul_def double_nonneg)
  ultimately show ?thesis
    by (simp add: kalshiFeeProduct_def double_mul_def double_nonneg)
qed

lemma kalshiTakerFee_ge:
  assumes "0 \<le> c" "0 \<le> p" "p \<le> 1"
  shows "0 \<le> calculateKalshiTakerFee c p"
proof -
  have "0 \<le> kalshiFeeProduct CONFIG_fees_kalshi_takerFeeRate c p"
    using assms by (intro kalshiFeeProduct_nonneg) (simp_all add: CONFIG_fees_kalshi_takerFeeRate_def)
  then have "0 \<le> double_mul (kalshiFeeProduct CONFIG_fees_kalshi_takerFeeRate c p) 100"
    by (simp add: double_mul_def double_nonneg)
  then have "0 \<le> \<lceil>double_mul (kalshiFeeProduct CONFIG_fees_kalshi_takerFeeRate c p) 100\<rceil>"
    by linarith
  then show ?thesis
    by (simp add: calculateKalshiTakerFee_def Math_ceil_def)
qed

lemma polymarketFee_ge: "0 \<le> calculatePolymarketFee c p"
  by (simp add: calculatePolymarketFee_def Let_def)

lemma totalCost_platformCost_ge:
  assumes "0 \<le> c" "0 \<le> p" "p \<le> 1"
  shows "c * p \<le> totalCost (platformCost pl c p)"
  using kalshiTakerFee_ge [OF assms] polymarketFee_ge [of c p]
  by (simp add: platformCost_def calculateKalshiCost_def calculatePolymarketCost_def Let_def)

lemma spec_costAt_ge:
  assumes "0 \<le> c" "0 \<le> pr1" "pr1 \<le> 1" "0 \<le> pr2" "pr2 \<le> 1"
  shows "c * (pr1 + pr2) \<le> spec_costAt p1 pr1 p2 pr2 c"
  using totalCost_platformCost_ge [of c pr1 p1] totalCost_platformCost_ge [of c pr2 p2] assms
  by (simp add: spec_costAt_def algebra_simps)

lemma no_profit_at:
  assumes "0 \<le> c" "0 \<le> pr1" "pr1 \<le> 1" "0 \<le> pr2" "pr2 \<le> 1" "1 \<le> pr1 + pr2"
  shows "c - spec_costAt p1 pr1 p2 pr2 c \<le> 0"
proof -
  have "c * 1 \<le> c * (pr1 + pr2)" using assms by (intro mult_left_mono) auto
  with spec_costAt_ge [OF assms(1-5), of p1 p2] show ?thesis by simp
qed

lemma spec_contractsFinal_nonneg:
  assumes "0 < investment" "0 \<le> pr1 + pr2"
  shows "0 \<le> spec_contractsFinal p1 pr1 p2 pr2 investment"
  using assms by (auto simp: spec_contractsFinal_def spec_contracts0_def Let_def)

lemma check_None_sum_ge_1:
  assumes "0 < investment" "0 \<le> pr1" "pr1 \<le> 1" "0 \<le> pr2" "pr2 \<le> 1" "1 \<le> pr1 + pr2"
  shows "checkArbitrageOpportunity p1 s1 pr1 p2 s2 pr2 investment = None"
proof -
  have "0 \<le> spec_contractsFinal p1 pr1 p2 pr2 investment"
    using assms by (intro spec_contractsFinal_nonneg) auto
  then have "spec_netProfit p1 pr1 p2 pr2 investment \<le> 0"
    using no_profit_at [OF _ assms(2-6)] by (simp add: spec_netProfit_def Let_def)
  then show ?thesis by (simp add: check_char)
qed

lemma sortByProfit_simps:
  "sortByProfit [] = []" "sortByProfit [a] = [a]"
  "sortByProfit [a, b] = (if netProfit b - netProfit a > 0 then [b, a] else [a, b])"
  by (simp_all add: sortByProfit_def)

lemma calculateArbitrage_char:
  "calculateArbitrage km pm investment =
    (case (checkArbitrageOpportunity ''kalshi'' ''yes'' (yesPriceOf km)
             ''polymarket'' ''no'' (1 - yesPriceOf pm) investment,
           checkArbitrageOpportunity ''kalshi'' ''no'' (1 - yesPriceOf km)
             ''polymarket'' ''yes'' (yesPriceOf pm) investment) of
       (None, None) \<Rightarrow> None
     | (Some a, None) \<Rightarrow> Some a
     | (None, Some b) \<Rightarrow> Some b
     | (Some a, Some b) \<Rightarrow> if netProfit b > netProfit a then Some b else Some a)"
  by (simp add: calculateArbitrage_def Let_def sortByProfit_simps split: option.splits)

lemma netProfit_opportunityAt:
  "netProfit (opportunityAt p1 s1 pr1 p2 s2 pr2 c) = c - spec_costAt p1 pr1 p2 pr2 c"
  by (simp add: opportunityAt_def mkOpportunity_sel netProfit_at)

lemma side1_opportunityAt: "side1 (opportunityAt p1 s1 pr1 p2 s2 pr2 c) = s1"
  by (simp add: opportunityAt_def mkOpportunity_sel)

lemmas cost_unfold = platformCost_def calculateKalshiCost_def calculatePolymarketCost_def
  calculatePolymarketFee_def CONFIG_fees_polymarket_feeRate_def Let_def

lemmas spec_unfold = spec_netProfit_def spec_contractsFinal_def spec_contracts0_def
  spec_costAt_def

lemmas solver_unfold = checkArbitrageOpportunity_def calculateArbitrage_def sortByProfit_def
  yesPriceOf_def or_num_def calculateArbitrageProfit_def mkOpportunity_def

text \<open>
  Claim C4 says that the Kalshi taker fee is
  \<open>ceil(0.07 * contracts * price * (1 - price) * 100) / 100\<close>, the fee rounded up to
  the next cent, and 1.47 for 100 contracts at price 0.3. At that input the code does
  return 1.47. For 100 contracts at price 0.7 the fee is 1.47 as well, a whole number of
  cents already; there the product the code rounds up is the double just above 147, and
  the code returns 1.48.
\<close>

theorem kalshi_taker_fee_rounds_double_product:
  "calculateKalshiTakerFee 100 (7 / 10) = 148 / 100
   \<and> real_of_int \<lceil>7 / 100 * 100 * (7 / 10) * (1 - 7 / 10) * 100 :: real\<rceil> / 100 = 147 / 100
   \<and> calculateKalshiTakerFee 100 (3 / 10) = 147 / 100"
  by code_simp

text \<open>
  Claim C2. \<open>checkArbitrageOpportunity\<close> computes the naive allocation
  \<open>contracts0 = investment / (price1 + price2)\<close> and the first-pass total cost there.
  When that cost exceeds the investment, the contract count becomes
  \<open>contracts0 * (investment / firstPass)\<close> and both side costs are computed again at
  that count, once; otherwise the count stays \<open>contracts0\<close>. The profit test and the
  returned record use that one count, and nothing is iterated.
\<close>

theorem checkArbitrageOpportunity_single_rescale:
  assumes "0 < investment" "0 \<le> pr1" "pr1 \<le> 1" "0 \<le> pr2" "pr2 \<le> 1" "0 < pr1 + pr2"
  shows "checkArbitrageOpportunity p1 s1 pr1 p2 s2 pr2 investment =
    (let contracts0 = investment / (pr1 + pr2);
         firstPass = totalCost (platformCost p1 contracts0 pr1)
                   + totalCost (platformCost p2 contracts0 pr2);
         contractsF = (if firstPass > investment
                       then contracts0 * (investment / firstPass) else contracts0);
         k1 = platformCost p1 contractsF pr1;
         k2 = platformCost p2 contractsF pr2;
         pf = calculateArbitrageProfit k1 k2
     in if netProfit pf > 0
        then Some (mkOpportunity p1 s1 pr1 p2 s2 pr2 contractsF k1 k2 pf)
        else None)"
  by (simp add: checkArbitrageOpportunity_def Let_def)

theorem checkArbitrageOpportunity_single_rescale_witness:
  "map_option contracts1
     (checkArbitrageOpportunity ''kalshi'' ''no'' (21 / 100) ''polymarket'' ''yes'' (75 / 100) 100)
     = Some (625 / 6 * (100 / (122077 / 1200)))
   \<and> map_option profit_totalCost
     (checkArbitrageOpportunity ''kalshi'' ''no'' (21 / 100) ''polymarket'' ''yes'' (75 / 100) 100)
     = Some (1220777163 / 12207700)"
proof -
  have h: "(0::real) < 100" "(0::real) \<le> 21 / 100" "(21 / 100 :: real) \<le> 1"
    "(0::real) \<le> 75 / 100" "(75 / 100 :: real) \<le> 1" "(0::real) < 21 / 100 + 75 / 100"
    by simp_all
  have f: "calculateKalshiTakerFee (625 / 6) (21 / 100) = 121 / 100"
    by code_simp
  have g: "calculateKalshiTakerFee (12500000 / 122077) (21 / 100) = 119 / 100"
    by code_simp
  show ?thesis
    unfolding checkArbitrageOpportunity_single_rescale
      [OF h, of "''kalshi''" "''no''" "''polymarket''" "''yes''"]
    by (simp add: cost_unfold calculateArbitrageProfit_def mkOpportunity_def
        profit.defs opportunity.defs f g)
qed

text \<open>
  Claim C1. \<open>calculateArbitrage\<close> evaluates the two combinations yes on Kalshi with no
  on Polymarket, and no on Kalshi with yes on Polymarket. It returns \<open>None\<close> when
  neither has a positive net profit, the first when its net profit is positive and not
  below the second's, the second when its net profit is positive and above the first's;
  whatever it returns has a positive net profit, the larger of the two. This holds for
  every investment and all prices. With yes prices in the unit interval at most one
  combination is profitable; the witness also takes prices outside it, where both are
  and the order of the two decides. Where the two prices of a combination sum to zero
  the source divides by zero and rejects the combination; the model's quotient is 0
  there, and for a positive investment it rejects the combination as well.
\<close>

theorem calculateArbitrage_best_of_two:
  fixes investment :: real and kalshiMarket polyMarket :: market
  shows
    "(spec_netProfit ''kalshi'' (yesPriceOf kalshiMarket)
          ''polymarket'' (1 - yesPriceOf polyMarket) investment \<le> 0 \<and>
      spec_netProfit ''kalshi'' (1 - yesPriceOf kalshiMarket)
          ''polymarket'' (yesPriceOf polyMarket) investment \<le> 0
      \<longrightarrow> calculateArbitrage kalshiMarket polyMarket investment = None)
   \<and> (0 < spec_netProfit ''kalshi'' (yesPriceOf kalshiMarket)
          ''polymarket'' (1 - yesPriceOf polyMarket) investment \<and>
      spec_netProfit ''kalshi'' (1 - yesPriceOf kalshiMarket)
          ''polymarket'' (yesPriceOf polyMarket) investment
        \<le> spec_netProfit ''kalshi'' (yesPriceOf kalshiMarket)
          ''polymarket'' (1 - yesPriceOf polyMarket) investment
      \<longrightarrow> calculateArbitrage kalshiMarket polyMarket investment =
            Some (opportunityAt ''kalshi'' ''yes'' (yesPriceOf kalshiMarket)
                    ''polymarket'' ''no'' (1 - yesPriceOf polyMarket)
                    (spec_contractsFinal ''kalshi'' (yesPriceOf kalshiMarket)
                       ''polymarket'' (1 - yesPriceOf polyMarket) investment)))
   \<and> (0 < spec_netProfit ''kalshi'' (1 - yesPriceOf kalshiMarket)
          ''polymarket'' (yesPriceOf polyMarket) investment \<and>
      spec_netProfit ''kalshi'' (yesPriceOf kalshiMarket)
          ''polymarket'' (1 - yesPriceOf polyMarket) investment
        < spec_netProfit ''kalshi'' (1 - yesPriceOf kalshiMarket)
          ''polymarket'' (yesPriceOf polyMarket) investment
      \<longrightarrow> calculateArbitrage kalshiMarket polyMarket investment =
            Some (opportunityAt ''kalshi'' ''no'' (1 - yesPriceOf kalshiMarket)
                    ''polymarket'' ''yes'' (yesPriceOf polyMarket)
                    (spec_contractsFinal ''kalshi'' (1 - yesPriceOf kalshiMarket)
                       ''polymarket'' (yesPriceOf polyMarket) investment)))
   \<and> (\<forall>best. calculateArbitrage kalshiMarket polyMarket investment = Some best
      \<longrightarrow> 0 < netProfit best \<and>
          netProfit best =
            max (spec_netProfit ''kalshi'' (yesPriceOf kalshiMarket)
                   ''polymarket'' (1 - yesPriceOf polyMarket) investment)
                (spec_netProfit ''kalshi'' (1 - yesPriceOf kalshiMarket)
                   ''polymarket'' (yesPriceOf polyMarket) investment))"
  by (auto simp: calculateArbitrage_char check_char netProfit_opportunityAt
      spec_netProfit_def Let_def)

theorem calculateArbitrage_best_of_two_witness:
  "map_option (\<lambda>opp. (side1 opp, netProfit opp))
     (calculateArbitrage
        \<lparr>market_id = ''K1'', title = None, question = None,
           yes_price = Some 20, price = None\<rparr>
        \<lparr>market_id = ''P1'', title = None, question = None,
           yes_price = Some 20, price = None\<rparr> 100)
     = Some (''no'', 2660)
   \<and> spec_netProfit ''kalshi'' 20 ''polymarket'' (1 - 20) 100 = 2620
   \<and> spec_netProfit ''kalshi'' (1 - 20) ''polymarket'' 20 100 = 2660
   \<and> map_option (\<lambda>opp. (side1 opp, netProfit opp))
     (calculateArbitrage
        \<lparr>market_id = ''K1'', title = None, question = None,
           yes_price = Some (- 19), price = None\<rparr>
        \<lparr>market_id = ''P1'', title = None, question = None,
           yes_price = Some (- 19), price = None\<rparr> 100)
     = Some (''yes'', 2660)
   \<and> spec_netProfit ''kalshi'' (- 19) ''polymarket'' (1 - (- 19)) 100 = 2660
   \<and> spec_netProfit ''kalshi'' (1 - (- 19)) ''polymarket'' (- 19) 100 = 2620
   \<and> calculateArbitrage
        \<lparr>market_id = ''K1'', title = None, question = None,
           yes_price = Some (1 / 2), price = None\<rparr>
        \<lparr>market_id = ''P1'', title = None, question = None,
           yes_price = Some (47 / 100), price = None\<rparr> 4
     = None"
proof -
  let ?m = "\<lambda>y. \<lparr>market_id = ''K1'', title = None, question = None,
           yes_price = Some (y :: real), price = None\<rparr>"
  let ?p = "\<lambda>y. \<lparr>market_id = ''P1'', title = None, question = None,
           yes_price = Some (y :: real), price = None\<rparr>"
  have y: "yesPriceOf (?m 20) = 20" "yesPriceOf (?p 20) = 20"
    "yesPriceOf (?m (- 19)) = - 19" "yesPriceOf (?p (- 19)) = - 19"
    "yesPriceOf (?m (1 / 2)) = 1 / 2" "yesPriceOf (?p (47 / 100)) = 47 / 100"
    by (simp_all add: yesPriceOf_def or_num_def)
  have f: "calculateKalshiTakerFee 100 20 = - 2660" by code_simp
  have g: "calculateKalshiTakerFee 100 (- 19) = - 2660" by code_simp
  have a1: "spec_netProfit ''kalshi'' 20 ''polymarket'' (1 - 20) 100 = 2620"
    by (simp add: spec_unfold cost_unfold f)
  have a2: "spec_netProfit ''kalshi'' (1 - 20) ''polymarket'' 20 100 = 2660"
    by (simp add: spec_unfold cost_unfold g)
  have b1: "spec_netProfit ''kalshi'' (- 19) ''polymarket'' (1 - (- 19)) 100 = 2660"
    by (simp add: spec_unfold cost_unfold g)
  have b2: "spec_netProfit ''kalshi'' (1 - (- 19)) ''polymarket'' (- 19) 100 = 2620"
    by (simp add: spec_unfold cost_unfold f)
  have c1: "spec_netProfit ''kalshi'' (1 / 2) ''polymarket'' (1 - 47 / 100) 4 \<le> 0"
    using no_profit_at
      [of "spec_contractsFinal ''kalshi'' (1 / 2) ''polymarket'' (1 - 47 / 100) 4"
          "1 / 2" "1 - 47 / 100" "''kalshi''" "''polymarket''"]
      spec_contractsFinal_nonneg [of 4 "1 / 2" "1 - 47 / 100" "''kalshi''" "''polymarket''"]
    by (simp add: spec_netProfit_def Let_def)
  have h: "calculateKalshiTakerFee (400 / 97) (1 / 2) = 8 / 100" by code_simp
  have k: "calculateKalshiTakerFee 4 (1 / 2) = 8 / 100" by code_simp
  have c2: "spec_netProfit ''kalshi'' (1 - 1 / 2) ''polymarket'' (47 / 100) 4 = - (3 / 1250)"
    by (simp add: spec_unfold cost_unfold h k)
  have A: "calculateArbitrage (?m 20) (?p 20) 100 =
      Some (opportunityAt ''kalshi'' ''no'' (1 - 20) ''polymarket'' ''yes'' 20
              (spec_contractsFinal ''kalshi'' (1 - 20) ''polymarket'' 20 100))"
    using calculateArbitrage_best_of_two [of "?m 20" "?p 20" 100]
    unfolding y a1 a2 by simp
  have B: "calculateArbitrage (?m (- 19)) (?p (- 19)) 100 =
      Some (opportunityAt ''kalshi'' ''yes'' (- 19) ''polymarket'' ''no'' (1 - (- 19))
              (spec_contractsFinal ''kalshi'' (- 19) ''polymarket'' (1 - (- 19)) 100))"
    using calculateArbitrage_best_of_two [of "?m (- 19)" "?p (- 19)" 100]
    unfolding y b1 b2 by simp
  have C: "calculateArbitrage (?m (1 / 2)) (?p (47 / 100)) 4 = None"
    using calculateArbitrage_best_of_two [of "?m (1 / 2)" "?p (47 / 100)" 4] c1 c2
    unfolding y by simp
  have nA: "netProfit (opportunityAt ''kalshi'' ''no'' (1 - 20) ''polymarket'' ''yes'' 20
              (spec_contractsFinal ''kalshi'' (1 - 20) ''polymarket'' 20 100)) = 2660"
    using a2 by (simp add: netProfit_opportunityAt spec_netProfit_def Let_def)
  have nB: "netProfit (opportunityAt ''kalshi'' ''yes'' (- 19) ''polymarket'' ''no'' (1 - (- 19))
              (spec_contractsFinal ''kalshi'' (- 19) ''polymarket'' (1 - (- 19)) 100)) = 2660"
    using b1 by (simp add: netProfit_opportunityAt spec_netProfit_def Let_def)
  show ?thesis
    unfolding A B C using a1 a2 b1 b2 nA nB by (simp add: side1_opportunityAt)
qed

text \<open>
  Claim C3, as stated: whenever the two bought prices of a combination sum to at least 1,
  \<open>calculateArbitrage\<close> returns \<open>None\<close>. It fails: with yes at 0.6 on Kalshi and
  no at 0.55 on Polymarket (yes at 0.45) the mirror combination buys at 0.4 and 0.45 and
  is returned with a positive net profit.
\<close>

theorem mirror_combination_counterexample:
  "1 \<le> yesPriceOf \<lparr>market_id = ''K3'', title = None, question = None,
           yes_price = Some (6 / 10), price = None\<rparr>
       + (1 - yesPriceOf \<lparr>market_id = ''P3'', title = None, question = None,
           yes_price = Some (45 / 100), price = None\<rparr>)
   \<and> map_option (\<lambda>opp. (platform1 opp, side1 opp, price1 opp,
                          platform2 opp, side2 opp, price2 opp, netProfit opp))
       (calculateArbitrage
          \<lparr>market_id = ''K3'', title = None, question = None,
             yes_price = Some (6 / 10), price = None\<rparr>
          \<lparr>market_id = ''P3'', title = None, question = None,
             yes_price = Some (45 / 100), price = None\<rparr> 100)
     = Some (''kalshi'', ''no'', 4 / 10, ''polymarket'', ''yes'', 45 / 100,
             30536416 / 2194575)"
proof -
  have f1: "calculateKalshiTakerFee (2000 / 23) (3 / 5) = 147 / 100" by code_simp
  have f2: "calculateKalshiTakerFee (20000000 / 235181) (3 / 5) = 143 / 100" by code_simp
  have g1: "calculateKalshiTakerFee (2000 / 17) (2 / 5) = 198 / 100" by code_simp
  have g2: "calculateKalshiTakerFee (10000000 / 87783) (2 / 5) = 192 / 100" by code_simp
  show ?thesis
    by (simp add: solver_unfold cost_unfold profit.defs opportunity.defs f1 f2 g1 g2)
qed

text \<open>
  Claim C3, amended. For a positive investment, a combination whose two bought prices lie
  in the unit interval and sum to at least 1 is rejected by
  \<open>checkArbitrageOpportunity\<close>: its net profit is not positive at the naive allocation
  nor at the rescaled one. \<open>calculateArbitrage\<close> returns \<open>None\<close> when this holds
  of both combinations, which is when the two yes prices are equal.
\<close>

theorem no_opportunity_when_prices_sum_ge_one:
  fixes investment pr1 pr2 :: real and kalshiMarket polyMarket :: market
  assumes "0 < investment"
  shows
    "(0 \<le> pr1 \<and> pr1 \<le> 1 \<and> 0 \<le> pr2 \<and> pr2 \<le> 1 \<and> 1 \<le> pr1 + pr2 \<longrightarrow>
        checkArbitrageOpportunity p1 s1 pr1 p2 s2 pr2 investment = None
        \<and> netProfit (calculateArbitrageProfit
              (platformCost p1 (investment / (pr1 + pr2)) pr1)
              (platformCost p2 (investment / (pr1 + pr2)) pr2)) \<le> 0
        \<and> netProfit (calculateArbitrageProfit
              (platformCost p1 (spec_contractsFinal p1 pr1 p2 pr2 investment) pr1)
              (platformCost p2 (spec_contractsFinal p1 pr1 p2 pr2 investment) pr2)) \<le> 0)
   \<and> (0 < yesPriceOf kalshiMarket \<and> yesPriceOf kalshiMarket \<le> 1
        \<and> yesPriceOf polyMarket = yesPriceOf kalshiMarket \<longrightarrow>
        calculateArbitrage kalshiMarket polyMarket investment = None)"
proof (intro conjI impI)
  assume a: "0 \<le> pr1 \<and> pr1 \<le> 1 \<and> 0 \<le> pr2 \<and> pr2 \<le> 1 \<and> 1 \<le> pr1 + pr2"
  then show "checkArbitrageOpportunity p1 s1 pr1 p2 s2 pr2 investment = None"
    using assms by (intro check_None_sum_ge_1) auto
  have "0 \<le> investment / (pr1 + pr2)" using a assms by simp
  then show "netProfit (calculateArbitrageProfit
              (platformCost p1 (investment / (pr1 + pr2)) pr1)
              (platformCost p2 (investment / (pr1 + pr2)) pr2)) \<le> 0"
    using a no_profit_at [of "investment / (pr1 + pr2)" pr1 pr2 p1 p2]
    by (simp add: netProfit_at)
  have "0 \<le> spec_contractsFinal p1 pr1 p2 pr2 investment"
    using a assms by (intro spec_contractsFinal_nonneg) auto
  then show "netProfit (calculateArbitrageProfit
              (platformCost p1 (spec_contractsFinal p1 pr1 p2 pr2 investment) pr1)
              (platformCost p2 (spec_contractsFinal p1 pr1 p2 pr2 investment) pr2)) \<le> 0"
    using a no_profit_at [of "spec_contractsFinal p1 pr1 p2 pr2 investment" pr1 pr2 p1 p2]
    by (simp add: netProfit_at)
next
  assume b: "0 < yesPriceOf kalshiMarket \<and> yesPriceOf kalshiMarket \<le> 1
        \<and> yesPriceOf polyMarket = yesPriceOf kalshiMarket"
  have "checkArbitrageOpportunity ''kalshi'' ''yes'' (yesPriceOf kalshiMarket)
          ''polymarket'' ''no'' (1 - yesPriceOf polyMarket) investment = None"
    using assms b by (intro check_None_sum_ge_1) auto
  moreover have "checkArbitrageOpportunity ''kalshi'' ''no'' (1 - yesPriceOf kalshiMarket)
          ''polymarket'' ''yes'' (yesPriceOf polyMarket) investment = None"
    using assms b by (intro check_None_sum_ge_1) auto
  ultimately show "calculateArbitrage kalshiMarket polyMarket investment = None"
    by (simp add: calculateArbitrage_char)
qed

theorem no_opportunity_when_prices_sum_ge_one_witness:
  "checkArbitrageOpportunity ''kalshi'' ''yes'' (6 / 10) ''polymarket'' ''no'' (55 / 100) 100 = None
   \<and> calculateArbitrage
        \<lparr>market_id = ''K2'', title = None, question = None,
           yes_price = Some (6 / 10), price = None\<rparr>
        \<lparr>market_id = ''P2'', title = None, question = None,
           yes_price = Some (6 / 10), price = None\<rparr> 100 = None"
proof -
  let ?k = "\<lparr>market_id = ''K2'', title = None, question = None,
           yes_price = Some (6 / 10 :: real), price = None\<rparr>"
  let ?p = "\<lparr>market_id = ''P2'', title = None, question = None,
           yes_price = Some (6 / 10 :: real), price = None\<rparr>"
  have k: "yesPriceOf ?k = 6 / 10" and p: "yesPriceOf ?p = 6 / 10"
    by (simp_all add: yesPriceOf_def or_num_def)
  have h: "(0::real) < 100" by simp
  show ?thesis
    using no_opportunity_when_prices_sum_ge_one
      [OF h, of "6 / 10" "55 / 100" "''kalshi''" "''yes''" "''polymarket''" "''no''" ?k ?p]
    unfolding k p by simp
qed

text \<open>
  Claim C9. A market whose \<open>yes_price\<close> is exactly 0 and whose \<open>price\<close> is not
  truthy is read with yes price 0.5 and no price 0.5: \<open>calculateArbitrage\<close> returns
  the same for it, on either venue, as for the same market with \<open>yes_price\<close> 0.5, and
  as for the same market with no \<open>yes_price\<close> at all.
\<close>

theorem zero_yes_price_read_as_half:
  fixes investment :: real and m other :: market
  assumes "yes_price m = Some 0" and "\<not> truthy_num (price m)"
  shows "yesPriceOf m = 1 / 2 \<and> 1 - yesPriceOf m = 1 / 2
    \<and> calculateArbitrage m other investment
        = calculateArbitrage (m\<lparr>yes_price := Some (1 / 2)\<rparr>) other investment
    \<and> calculateArbitrage other m investment
        = calculateArbitrage other (m\<lparr>yes_price := Some (1 / 2)\<rparr>) investment
    \<and> calculateArbitrage m other investment
        = calculateArbitrage (m\<lparr>yes_price := None\<rparr>) other investment
    \<and> calculateArbitrage other m investment
        = calculateArbitrage other (m\<lparr>yes_price := None\<rparr>) investment"
proof -
  have a: "yesPriceOf m = 1 / 2"
    using assms by (simp add: yesPriceOf_def or_num_def truthy_num_def split: option.splits)
  have b: "yesPriceOf (m\<lparr>yes_price := Some (1 / 2)\<rparr>) = 1 / 2"
    by (simp add: yesPriceOf_def or_num_def)
  have c: "yesPriceOf (m\<lparr>yes_price := None\<rparr>) = 1 / 2"
    using assms by (simp add: yesPriceOf_def or_num_def truthy_num_def split: option.splits)
  show ?thesis by (simp add: calculateArbitrage_def a b c)
qed

theorem zero_yes_price_read_as_half_witness:
  "calculateArbitrage
     \<lparr>market_id = ''K4'', title = None, question = None, yes_price = Some 0, price = None\<rparr>
     \<lparr>market_id = ''P4'', title = None, question = None,
        yes_price = Some (3 / 10), price = None\<rparr> 100
   = calculateArbitrage
     \<lparr>market_id = ''K4'', title = None, question = None, yes_price = Some (1 / 2), price = None\<rparr>
     \<lparr>market_id = ''P4'', title = None, question = None,
        yes_price = Some (3 / 10), price = None\<rparr> 100
   \<and> yesPriceOf \<lparr>market_id = ''K4'', title = None, question = None,
        yes_price = Some 0, price = None\<rparr> = 1 / 2"
  using zero_yes_price_read_as_half
    [of "\<lparr>market_id = ''K4'', title = None, question = None, yes_price = Some 0, price = None\<rparr>"
        "\<lparr>market_id = ''P4'', title = None, question = None,
           yes_price = Some (3 / 10), price = None\<rparr>" 100]
  by (simp add: truthy_num_def)

section \<open>Properties of the lexical similarity\<close>

lemma filter_mem_Int: "{x \<in> a. x \<in> b} = a \<inter> b"
  by auto

lemma jaccard_commute: "jaccard a b = jaccard b a"
  by (simp add: jaccard_def Let_def filter_mem_Int Int_commute Un_commute)

lemma finite_years: "finite (years (extractKeyEntities s))"
  by (simp add: extractKeyEntities_def Let_def)

lemma normalized_extract: "normalized (extractKeyEntities s) = normalize s"
  by (simp add: extractKeyEntities_def Let_def)

lemma years_extract: "years (extractKeyEntities s) = set (matchAll yearPattern False (normalize s))"
  by (simp add: extractKeyEntities_def Let_def)

lemma normalize_Nil: "normalize [] = []"
  by (simp add: normalize_def trim_def toLowerCase_def)

text \<open>
  Claim C7. The lexical similarity is symmetric in its two titles.
\<close>

theorem calculateSimilarity_symmetric:
  "calculateSimilarity a b = calculateSimilarity b a"
proof -
  have y: "card (Set.filter (\<lambda>y. y \<in> years (extractKeyEntities b)) (years (extractKeyEntities a)))
         = card (Set.filter (\<lambda>y. y \<in> years (extractKeyEntities a)) (years (extractKeyEntities b)))"
    by (simp add: filter_mem_Int Int_commute)
  show ?thesis
    unfolding calculateSimilarity_def Let_def y
    by (simp add: jaccard_commute disj_commute conj_commute eq_commute [of "normalized (extractKeyEntities a)"])
qed

text \<open>
  Claim C5, as stated: two titles whose year sets are both non-empty and disjoint score
  exactly 0. It fails: the substring rule is tested before the year gate, and the
  normalized text of "Tesla stock above 2030" (year set 2030) is contained in that of
  "Tesla stock above 20300 in 2026" (year set 2026, since 20300 is no year), so the score
  is 0.85.
\<close>

theorem substring_rule_precedes_year_gate_counterexample:
  "years (extractKeyEntities ''Tesla stock above 20300 in 2026'') = {''2026''}
   \<and> years (extractKeyEntities ''Tesla stock above 2030'') = {''2030''}
   \<and> calculateSimilarity ''Tesla stock above 20300 in 2026'' ''Tesla stock above 2030''
       = 85 / 100"
  by code_simp

text \<open>
  Claim C5, amended. For two titles whose year sets are both non-empty and disjoint, the
  score is exactly 0 whatever words, names and numbers they share, unless the normalized
  text of one contains that of the other; then the substring rule, which comes first,
  gives 0.85.
\<close>

theorem year_gate_after_substring_rule:
  assumes "years (extractKeyEntities a) \<noteq> {}" and "years (extractKeyEntities b) \<noteq> {}"
    and "years (extractKeyEntities a) \<inter> years (extractKeyEntities b) = {}"
  shows "calculateSimilarity a b =
           (if str_includes (normalize a) (normalize b) \<or> str_includes (normalize b) (normalize a)
            then 85 / 100 else 0)"
proof -
  have ne: "a \<noteq> []" "b \<noteq> []"
    using assms(1,2) by (auto simp: years_extract normalize_Nil)
  have neq: "normalize a \<noteq> normalize b"
    using assms by (auto simp: years_extract)
  have c: "card (years (extractKeyEntities a)) > 0" "card (years (extractKeyEntities b)) > 0"
    using assms(1,2) finite_years by (simp_all add: card_gt_0_iff)
  have i: "card (Set.filter (\<lambda>y. y \<in> years (extractKeyEntities b)) (years (extractKeyEntities a))) = 0"
    using assms(3) by (simp add: filter_mem_Int)
  show ?thesis
    unfolding calculateSimilarity_def Let_def normalized_extract
    by (simp only: ne neq c i simp_thms if_True if_False)
qed

theorem year_gate_after_substring_rule_witness:
  "calculateSimilarity ''Will Trump win in 2028?'' ''Trump wins 2024 election'' = 0"
proof -
  have y1: "years (extractKeyEntities ''Will Trump win in 2028?'') = {''2028''}"
    by code_simp
  have y2: "years (extractKeyEntities ''Trump wins 2024 election'') = {''2024''}"
    by code_simp
  have n1: "\<not> str_includes (normalize ''Will Trump win in 2028?'')
                (normalize ''Trump wins 2024 election'')"
    by code_simp
  have n2: "\<not> str_includes (normalize ''Trump wins 2024 election'')
                (normalize ''Will Trump win in 2028?'')"
    by code_simp
  show ?thesis
    using year_gate_after_substring_rule
      [of "''Will Trump win in 2028?''" "''Trump wins 2024 election''"] n1 n2
    unfolding y1 y2 by simp
qed

section \<open>Properties of the greedy matcher\<close>

lemma bestMatchLoop_unused:
  assumes "bestMatchLoop used k t ps best = (Some bm, bs)"
  shows "(fst best = Some bm) \<or> (bm \<in> set ps \<and> market_id bm \<notin> used)"
  using assms
proof (induction ps arbitrary: best)
  case Nil
  then show ?case by simp
next
  case (Cons p ps)
  obtain b s where best: "best = (b, s)" by (cases best)
  show ?case
    using Cons.IH Cons.prems unfolding best
    by (fastforce simp: Let_def split: if_splits)
qed

lemma bestMatchLoop_fresh:
  assumes "bestMatchLoop used k t ps (None, 0) = (Some bm, bs)"
  shows "bm \<in> set ps \<and> market_id bm \<notin> used"
  using bestMatchLoop_unused [OF assms] by simp

lemma matchLoop_invariant:
  assumes "matchLoop ks ps t (ms, used) = (ms', used')"
    and "distinct (map (\<lambda>m. market_id (polymarket m)) ms)"
    and "(\<lambda>m. market_id (polymarket m)) ` set ms \<subseteq> used"
  shows "distinct (map (\<lambda>m. market_id (polymarket m)) ms')
       \<and> (\<lambda>m. market_id (polymarket m)) ` set ms' \<subseteq> used'
       \<and> (\<exists>ks'. map kalshi ms' = map kalshi ms @ ks' \<and> subseq ks' ks)
       \<and> (\<forall>m \<in> set ms' - set ms. polymarket m \<in> set ps)"
  using assms
proof (induction ks arbitrary: ms used)
  case Nil
  then show ?case by auto
next
  case (Cons k ks)
  obtain b s where r: "bestMatchLoop used k t ps (None, 0) = (b, s)"
    by (cases "bestMatchLoop used k t ps (None, 0)")
  show ?case
  proof (cases b)
    case None
    with Cons.prems r have "matchLoop ks ps t (ms, used) = (ms', used')" by simp
    from Cons.IH [OF this Cons.prems(2,3)] show ?thesis
      by (auto intro: subseq_Cons')
  next
    case (Some bm)
    let ?m = "\<lparr>kalshi = k, polymarket = bm, similarity = s,
                 matchConfidence =
                   (if s \<ge> 7 / 10 then ''high''
                    else if s \<ge> 5 / 10 then ''medium'' else ''low'')\<rparr>"
    from r Some have fresh: "bm \<in> set ps" "market_id bm \<notin> used"
      using bestMatchLoop_fresh by blast+
    from Cons.prems r Some
    have step: "matchLoop ks ps t (ms @ [?m], insert (market_id bm) used) = (ms', used')"
      by simp
    have d: "distinct (map (\<lambda>m. market_id (polymarket m)) (ms @ [?m]))"
      using Cons.prems(2,3) fresh by auto
    have u: "(\<lambda>m. market_id (polymarket m)) ` set (ms @ [?m]) \<subseteq> insert (market_id bm) used"
      using Cons.prems(3) by auto
    from Cons.IH [OF step d u] fresh show ?thesis
      by (auto intro: subseq_Cons2')
  qed
qed

lemma subseq_distinct:
  assumes "subseq xs ys" and "distinct ys"
  shows "distinct xs"
  using assms
proof (induction rule: list_emb.induct)
  case (list_emb_Cons xs ys y)
  then show ?case by simp
next
  case (list_emb_Cons2 x y xs ys)
  then have "set xs \<subseteq> set ys" by (auto dest: list_emb_set)
  with list_emb_Cons2 show ?case by auto
qed simp

lemma findMatchingMarkets_invariant:
  "distinct (map (\<lambda>m. market_id (polymarket m)) (findMatchingMarkets ks ps t))
   \<and> subseq (map kalshi (findMatchingMarkets ks ps t)) ks
   \<and> polymarket ` set (findMatchingMarkets ks ps t) \<subseteq> set ps"
proof -
  obtain ms' used' where r: "matchLoop ks ps t ([], {}) = (ms', used')"
    by (cases "matchLoop ks ps t ([], {})")
  from matchLoop_invariant [OF r] show ?thesis
    by (auto simp: findMatchingMarkets_def r)
qed

text \<open>
  Claim C6, as stated: for every pair of input lists no market id appears in more than
  one matched pair. It fails when the Kalshi list repeats a market: only the ids of the
  Polymarket side are recorded in the used set, so both copies are paired, each with
  another Polymarket market, and the Kalshi id appears in two pairs.
\<close>

theorem repeated_kalshi_market_counterexample:
  "map (\<lambda>m. (market_id (kalshi m), market_id (polymarket m)))
     (findMatchingMarkets
        [\<lparr>market_id = ''K1'', title = Some ''Fed rate cut in March'', question = None,
           yes_price = Some (3 / 10), price = None\<rparr>,
         \<lparr>market_id = ''K1'', title = Some ''Fed rate cut in March'', question = None,
           yes_price = Some (3 / 10), price = None\<rparr>]
        [\<lparr>market_id = ''P1'', title = Some ''Fed rate cut in March'', question = None,
           yes_price = Some (4 / 10), price = None\<rparr>,
         \<lparr>market_id = ''P2'', title = Some ''Fed rate cut in March?'', question = None,
           yes_price = Some (4 / 10), price = None\<rparr>]
        (4 / 10))
   = [(''K1'', ''P1''), (''K1'', ''P2'')]"
  by code_simp

text \<open>
  Claim C6, amended. For all input lists and every threshold, no Polymarket id appears in
  more than one matched pair; the Kalshi markets of the pairs are a subsequence of the
  Kalshi list, each element of it paired at most once, so no Kalshi id appears in more
  than one pair when the Kalshi list has no repeated id.
\<close>

theorem findMatchingMarkets_exclusive:
  "distinct (map (\<lambda>m. market_id (polymarket m))
      (findMatchingMarkets kalshiMarkets polymarketMarkets minSimilarity))
   \<and> subseq (map kalshi (findMatchingMarkets kalshiMarkets polymarketMarkets minSimilarity))
        kalshiMarkets
   \<and> (distinct (map market_id kalshiMarkets) \<longrightarrow>
        distinct (map (\<lambda>m. market_id (kalshi m))
          (findMatchingMarkets kalshiMarkets polymarketMarkets minSimilarity)))"
proof -
  let ?r = "findMatchingMarkets kalshiMarkets polymarketMarkets minSimilarity"
  have s: "subseq (map kalshi ?r) kalshiMarkets"
    using findMatchingMarkets_invariant by blast
  have "distinct (map market_id (map kalshi ?r))" if "distinct (map market_id kalshiMarkets)"
    using subseq_distinct [OF subseq_map [OF s, of market_id] that] .
  then show ?thesis
    using findMatchingMarkets_invariant [of kalshiMarkets polymarketMarkets minSimilarity] s
    by (simp add: comp_def)
qed

theorem findMatchingMarkets_exclusive_witness:
  "map (\<lambda>m. (market_id (kalshi m), market_id (polymarket m)))
     (findMatchingMarkets
        [\<lparr>market_id = ''K1'', title = Some ''Fed rate cut in March'', question = None,
           yes_price = Some (3 / 10), price = None\<rparr>,
         \<lparr>market_id = ''K2'', title = None, question = Some ''Fed rate cut in March'',
           yes_price = Some (3 / 10), price = None\<rparr>]
        [\<lparr>market_id = ''P1'', title = Some ''Fed rate cut in March'', question = None,
           yes_price = Some (4 / 10), price = None\<rparr>]
        (4 / 10))
   = [(''K1'', ''P1'')]
   \<and> distinct (map (\<lambda>m. market_id (kalshi m))
     (findMatchingMarkets
        [\<lparr>market_id = ''K1'', title = Some ''Fed rate cut in March'', question = None,
           yes_price = Some (3 / 10), price = None\<rparr>,
         \<lparr>market_id = ''K2'', title = None, question = Some ''Fed rate cut in March'',
           yes_price = Some (3 / 10), price = None\<rparr>]
        [\<lparr>market_id = ''P1'', title = Some ''Fed rate cut in March'', question = None,
           yes_price = Some (4 / 10), price = None\<rparr>]
        (4 / 10)))"
proof -
  let ?ks = "[\<lparr>market_id = ''K1'', title = Some ''Fed rate cut in March'', question = None,
           yes_price = Some (3 / 10 :: real), price = None\<rparr>,
         \<lparr>market_id = ''K2'', title = None, question = Some ''Fed rate cut in March'',
           yes_price = Some (3 / 10), price = None\<rparr>]"
  let ?ps = "[\<lparr>market_id = ''P1'', title = Some ''Fed rate cut in March'', question = None,
           yes_price = Some (4 / 10 :: real), price = None\<rparr>]"
  have d: "distinct (map market_id ?ks)" by simp
  have e: "map (\<lambda>m. (market_id (kalshi m), market_id (polymarket m)))
             (findMatchingMarkets ?ks ?ps (4 / 10)) = [(''K1'', ''P1'')]"
    by code_simp
  from findMatchingMarkets_exclusive [of ?ks ?ps "4 / 10"] d
  have "distinct (map (\<lambda>m. market_id (kalshi m)) (findMatchingMarkets ?ks ?ps (4 / 10)))"
    by blast
  with e show ?thesis by simp
qed

section \<open>Properties of the cosine similarity\<close>

lemma cosineLoop_fold:
  assumes "n \<le> length vec1"
  shows "fold (\<lambda>i (dotProduct, norm1, norm2).
             (dotProduct + vec1 ! i * vec2 ! i,
              norm1 + vec1 ! i * vec1 ! i,
              norm2 + vec2 ! i * vec2 ! i)) [0..<n] (0, 0, 0)
         = (\<Sum>i<n. vec1 ! i * vec2 ! i, \<Sum>i<n. vec1 ! i * vec1 ! i, \<Sum>i<n. vec2 ! i * vec2 ! i)"
  using assms by (induction n) simp_all

lemma cosineLoop_sums:
  "cosineLoop vec1 vec2 =
     (\<Sum>i<length vec1. vec1 ! i * vec2 ! i,
      \<Sum>i<length vec1. vec1 ! i * vec1 ! i,
      \<Sum>i<length vec1. vec2 ! i * vec2 ! i)"
  unfolding cosineLoop_def by (rule cosineLoop_fold) simp

lemma sum_squares_nth: "(\<Sum>i<length v. v ! i * v ! i) = (\<Sum>x\<leftarrow>v. x * (x::real))"
proof -
  have "(\<Sum>x\<leftarrow>v. x * x) = (\<Sum>i = 0..<length v. map (\<lambda>x. x * x) v ! i)"
    using sum_list_sum_nth [of "map (\<lambda>x. x * x) v"] by simp
  also have "\<dots> = (\<Sum>i = 0..<length v. v ! i * v ! i)"
    by (rule sum.cong) simp_all
  finally show ?thesis by (simp add: atLeast0LessThan)
qed

lemma vectorNorm_zero_entries:
  assumes "vectorNorm v = 0" and "i < length v"
  shows "v ! i = 0"
proof -
  from assms(1) have "(\<Sum>i<length v. v ! i * v ! i) = 0"
    by (simp add: vectorNorm_def sum_squares_nth)
  then have "\<forall>i \<in> {..<length v}. v ! i * v ! i = 0"
    by (subst (asm) sum_nonneg_eq_0_iff) auto
  with assms(2) show ?thesis by simp
qed

lemma cosine_zero_norm:
  assumes "length v1 = length v2" and "vectorNorm v1 = 0 \<or> vectorNorm v2 = 0"
  shows "cosineSimilarity (Some v1) (Some v2) = NaN"
proof -
  have dot: "(\<Sum>i<length v1. v1 ! i * v2 ! i) = 0"
    using assms vectorNorm_zero_entries [of v1] vectorNorm_zero_entries [of v2]
    by (intro sum.neutral) auto
  have "(\<Sum>i<length v1. v1 ! i * v1 ! i) = 0 \<or> (\<Sum>i<length v1. v2 ! i * v2 ! i) = 0"
    using assms(2) sum_squares_nth [of v1] sum_squares_nth [of v2]
    unfolding assms(1) vectorNorm_def by auto
  then have "sqrt (\<Sum>i<length v1. v1 ! i * v1 ! i) * sqrt (\<Sum>i<length v1. v2 ! i * v2 ! i) = 0"
    by auto
  with dot show ?thesis
    using assms(1) by (simp add: cosineSimilarity_def cosineLoop_sums js_div_def)
qed

text \<open>
  Claim C10, as stated: \<open>cosineSimilarity\<close> returns 0 only for an absent vector or
  mismatched lengths. It fails: two vectors that are present, of the same length and
  orthogonal, such as \<open>[1, 0]\<close> and \<open>[0, 1]\<close>, have dot product 0 and non-zero norms,
  and the quotient returned is 0.
\<close>

theorem orthogonal_vectors_counterexample:
  "cosineSimilarity (Some [1, 0]) (Some [0, 1]) = Num 0"
  by (simp add: cosineSimilarity_def cosineLoop_sums js_div_def lessThan_Suc numeral_2_eq_2)

text \<open>
  Claim C10, amended. \<open>cosineSimilarity\<close> returns 0 for an absent vector and for
  vectors of different lengths; for vectors of the same length it returns 0 only when
  both norms are non-zero. For two vectors of the same length of which at least one has
  norm zero, the dot product and the product of the norms are both zero, the division is
  made all the same, and the result is \<open>NaN\<close>, not a number.
\<close>

theorem cosineSimilarity_zero_norm_unguarded:
  "cosineSimilarity None vec2 = Num 0
   \<and> cosineSimilarity vec1 None = Num 0
   \<and> (length v1 \<noteq> length v2 \<longrightarrow> cosineSimilarity (Some v1) (Some v2) = Num 0)
   \<and> (length v1 = length v2 \<and> (vectorNorm v1 = 0 \<or> vectorNorm v2 = 0) \<longrightarrow>
        cosineSimilarity (Some v1) (Some v2) = NaN)
   \<and> (length v1 = length v2 \<and> cosineSimilarity (Some v1) (Some v2) = Num 0 \<longrightarrow>
        vectorNorm v1 \<noteq> 0 \<and> vectorNorm v2 \<noteq> 0)"
  using cosine_zero_norm [of v1 v2]
  by (auto simp: cosineSimilarity_def split: option.splits)

theorem cosineSimilarity_zero_norm_unguarded_witness:
  "cosineSimilarity (Some [0, 0]) (Some [1, 2]) = NaN
   \<and> cosineSimilarity (Some [1, 2]) (Some [1, 2, 3]) = Num 0"
proof -
  have "length [0, 0 :: real] = length [1, 2 :: real]" "vectorNorm [0, 0] = 0"
    "length [1, 2 :: real] \<noteq> length [1, 2, 3 :: real]"
    by (simp_all add: vectorNorm_def)
  then show ?thesis
    using cosineSimilarity_zero_norm_unguarded [of _ _ "[0, 0]" "[1, 2]"]
      cosineSimilarity_zero_norm_unguarded [of _ _ "[1, 2]" "[1, 2, 3]"]
    by blast
qed

section \<open>The matches route during a refresh\<close>

text \<open>
  Claim C8 says that every read of the matches fails with status 503 while a refresh is
  in progress. The route does consult \<open>system.isIndexing\<close>, but system.js exports no
  such member and sets no flag: in every phase of the refresh, the rebuild of the Kalshi
  index among them, the route answers with the matches it queried (or with status 500
  when the query throws), never with status 503.
\<close>

theorem matches_served_during_refresh:
  "refresh_in_progress (refresh_completes (refresh_completes Idle))
   \<and> getOpportunities system (refresh_completes (refresh_completes Idle)) (Some matches)
       = Status200 matches
   \<and> getOpportunities system phase (Some matches) = Status200 matches
   \<and> getOpportunities system phase None = Status500"
  by (simp add: getOpportunities_def system_def refresh_in_progress_def)

end
